theory Spec2Isabelle
  imports Complex_Main "HOL-Library.Sublist" "HOL-Library.AList"
begin

section \<open>EnergyFlow base classes (energyflow/base.py)\<close>

text \<open>
  A shallow embedding of \<^verbatim>\<open>EFBase\<close>, \<^verbatim>\<open>EFPBase\<close> and \<^verbatim>\<open>EFMBase\<close>.
  Python exceptions are values of \<open>error\<close>; a function that may raise returns
  \<open>error + 'a\<close>, with \<open>Inl\<close> the exception. Objects are records, the keyword
  dictionary is an association list in insertion order, and the collaborators that
  live outside base.py (the \<^verbatim>\<open>Measure\<close> class, the concrete \<^verbatim>\<open>compute\<close> of a
  subclass, the abstract properties) are parameters of the definitions.
\<close>

subsection \<open>Python values and exceptions\<close>

datatype error =
    TypeError string
  | ValueError string
  | AssertionError string
  | KeyError string
  | AttributeError string
  | ZeroDivisionError
  | ConfigurationError "string list"
  | OtherError string

datatype pyval = PNone | PBool bool | PNum real | PStr string

text \<open>Truth value testing, as \<^verbatim>\<open>not v\<close> and \<^verbatim>\<open>if v\<close> apply it.\<close>

fun truthy :: "pyval \<Rightarrow> bool" where
  "truthy PNone = False"
| "truthy (PBool b) = b"
| "truthy (PNum x) = (x \<noteq> 0)"
| "truthy (PStr s) = (s \<noteq> [])"

text \<open>
  \<^verbatim>\<open>sub in s\<close> on strings: \<open>sub\<close> occurs in \<open>s\<close> as a contiguous block.
\<close>

fun str_contains :: "string \<Rightarrow> string \<Rightarrow> bool" where
  "str_contains sub [] = (sub = [])"
| "str_contains sub (c # cs) = (prefix sub (c # cs) \<or> str_contains sub cs)"

text \<open>
  \<^verbatim>\<open>'efm' in v\<close> for a Python value: only a string supports the membership test,
  any other value of \<open>pyval\<close> is not iterable.
\<close>

fun py_in :: "string \<Rightarrow> pyval \<Rightarrow> error + bool" where
  "py_in sub (PStr s) = Inr (str_contains sub s)"
| "py_in sub v = Inl (TypeError ''argument is not iterable'')"

subsection \<open>Sequencing of computations that may raise\<close>

text \<open>
  \<^verbatim>\<open>list(map(f, xs))\<close>: the calls run in order and the first exception ends the
  evaluation.
\<close>

fun map_seq :: "('a \<Rightarrow> error + 'b) \<Rightarrow> 'a list \<Rightarrow> error + 'b list" where
  "map_seq f [] = Inr []"
| "map_seq f (x # xs) =
     (case f x of
        Inl e \<Rightarrow> Inl e
      | Inr y \<Rightarrow> (case map_seq f xs of Inl e \<Rightarrow> Inl e | Inr ys \<Rightarrow> Inr (y # ys)))"

subsection \<open>The evaluator object and its environment\<close>

text \<open>
  The \<^verbatim>\<open>Measure\<close> object, as far as base.py reads and writes it: the seven
  attributes behind the properties of \<^verbatim>\<open>EFBase\<close>.
\<close>

record measure_obj =
  m_measure :: pyval
  m_beta :: pyval
  m_kappa :: pyval
  m_normed :: pyval
  m_coords :: pyval
  m_check_input :: pyval
  m_subslicing :: pyval

text \<open>
  The attributes base.py itself sets on an instance. An attribute that was never
  assigned is \<open>None\<close> (\<^verbatim>\<open>hasattr\<close> is false). Only \<^verbatim>\<open>EFBase.__init__\<close> assigns
  \<^verbatim>\<open>_measure\<close>, always to a \<^verbatim>\<open>Measure\<close>, so the \<^verbatim>\<open>isinstance\<close> test holds
  whenever the attribute exists.
\<close>

record ef_obj =
  measure_attr :: "measure_obj option"
  n_jobs_attr :: "int option"
  use_efms_attr :: "bool option"

text \<open>
  What \<^verbatim>\<open>batch_compute\<close> reads from the interpreter and the machine:
  \<^verbatim>\<open>multiprocessing.cpu_count()\<close> (a count, or an exception) and
  \<^verbatim>\<open>sys.version_info[0]\<close>.
\<close>

record env =
  cpu_count :: "error + int"
  py_major :: int

text \<open>The life cycle of the worker pool of one call.\<close>

datatype pool_status = NoPool | Running | Closed | Terminated

subsection \<open>batch\_compute\<close>

text \<open>Lines 77-81: \<^verbatim>\<open>n_jobs == -1\<close> asks for the CPU count, with 4 when that raises.\<close>

definition resolve_n_jobs :: "env \<Rightarrow> int \<Rightarrow> int" where
  "resolve_n_jobs ev n_jobs =
     (if n_jobs = - 1
      then (case cpu_count ev of Inr c \<Rightarrow> c | Inl e \<Rightarrow> 4)
      else n_jobs)"

text \<open>Python's \<^verbatim>\<open>//\<close> on integers: floor division, raising on a zero divisor.\<close>

definition floordiv :: "int \<Rightarrow> int \<Rightarrow> error + int" where
  "floordiv a b = (if b = 0 then Inl ZeroDivisionError else Inr (a div b))"

text \<open>Line 90: \<^verbatim>\<open>min(max(len(events)//self.n_jobs, 1), 10000)\<close>.\<close>

definition chunksize :: "'e list \<Rightarrow> int \<Rightarrow> error + int" where
  "chunksize events n_jobs =
     (case floordiv (int (length events)) n_jobs of
        Inl e \<Rightarrow> Inl e
      | Inr q \<Rightarrow> Inr (min (max q 1) 10000))"

text \<open>\<^verbatim>\<open>multiprocessing.Pool(n)\<close> refuses a process count below one.\<close>

definition Pool_new :: "int \<Rightarrow> error + pool_status" where
  "Pool_new n =
     (if n < 1 then Inl (ValueError ''Number of processes must be at least 1'')
      else Inr Running)"

text \<open>
  \<^verbatim>\<open>Pool.imap(f, events, chunksize)\<close>: the input is cut into consecutive batches of
  \<open>chunksize\<close> items, a worker evaluates one batch with \<^verbatim>\<open>list(map(f, batch))\<close>, and
  the iterator hands the batches back in the order of the input, raising the exception
  of the first batch that failed.
\<close>

function chunks :: "nat \<Rightarrow> 'a list \<Rightarrow> 'a list list" where
  "chunks k xs = (if k = 0 \<or> xs = [] then [] else take k xs # chunks k (drop k xs))"
  by pat_completeness auto
termination
  by (relation "measure (\<lambda>(k, xs). length xs)") auto

declare chunks.simps [simp del]

fun collect :: "(error + 'b list) list \<Rightarrow> error + 'b list" where
  "collect [] = Inr []"
| "collect (r # rs) =
     (case r of
        Inl e \<Rightarrow> Inl e
      | Inr ys \<Rightarrow> (case collect rs of Inl e \<Rightarrow> Inl e | Inr zs \<Rightarrow> Inr (ys @ zs)))"

definition imap :: "('a \<Rightarrow> error + 'b) \<Rightarrow> 'a list \<Rightarrow> int \<Rightarrow> error + 'b list" where
  "imap f events csize =
     (if csize < 1 then Inl (ValueError ''Chunksize must be 1+'')
      else collect (map (map_seq f) (chunks (nat csize) events)))"

text \<open>
  Lines 144-145 and 175-176: \<^verbatim>\<open>_batch_compute_func\<close> calls the subclass's
  \<^verbatim>\<open>compute\<close> on the instance. \<open>compute\<close> is the parameter; it reads the instance
  and does not change it.
\<close>

definition batch_compute_func ::
  "('s \<Rightarrow> 'e \<Rightarrow> error + 'v) \<Rightarrow> 's \<Rightarrow> 'e \<Rightarrow> error + 'v" where
  "batch_compute_func compute self event = compute self event"

text \<open>
  Lines 77-101, with the \<^verbatim>\<open>imap\<close> method of the pool as the parameter \<open>pool_imap\<close>,
  so that what the call hands to the pool (the function, the events and the chunk
  size) can be read off. The result is the instance after the call, the state of the
  pool the call created (if any), and the returned vector or the exception raised.
  \<^verbatim>\<open>np.asarray(list(...))\<close> keeps the order and the elements, so the vector is the list.
  In Python 3 the \<^verbatim>\<open>with\<close> block terminates the pool on every exit; in Python 2
  \<^verbatim>\<open>pool.close()\<close> is the statement after the evaluation.
\<close>

definition batch_compute_with ::
  "(('e \<Rightarrow> error + 'v) \<Rightarrow> 'e list \<Rightarrow> int \<Rightarrow> error + 'v list)
     \<Rightarrow> env \<Rightarrow> (ef_obj \<Rightarrow> 'e \<Rightarrow> error + 'v) \<Rightarrow> ef_obj \<Rightarrow> 'e list \<Rightarrow> int
     \<Rightarrow> ef_obj \<times> pool_status \<times> (error + 'v list)" where
  "batch_compute_with pool_imap ev compute self events n_jobs =
     (let n = resolve_n_jobs ev n_jobs;
          self1 = self\<lparr>n_jobs_attr := Some n\<rparr>
      in if n = 1 then (self1, NoPool, map_seq (batch_compute_func compute self1) events)
         else
           (case chunksize events n of
              Inl e \<Rightarrow> (self1, NoPool, Inl e)
            | Inr c \<Rightarrow>
                (case Pool_new n of
                   Inl e \<Rightarrow> (self1, NoPool, Inl e)
                 | Inr pool \<Rightarrow>
                     if py_major ev = 3
                     then (self1, Terminated, pool_imap (batch_compute_func compute self1) events c)
                     else
                       (case pool_imap (batch_compute_func compute self1) events c of
                          Inl e \<Rightarrow> (self1, pool, Inl e)
                        | Inr results \<Rightarrow> (self1, Closed, Inr results)))))"

text \<open>\<^verbatim>\<open>batch_compute\<close> on the pool of the standard library.\<close>

definition batch_compute ::
  "env \<Rightarrow> (ef_obj \<Rightarrow> 'e \<Rightarrow> error + 'v) \<Rightarrow> ef_obj \<Rightarrow> 'e list \<Rightarrow> int
     \<Rightarrow> ef_obj \<times> pool_status \<times> (error + 'v list)" where
  "batch_compute ev compute self events n_jobs =
     batch_compute_with imap ev compute self events n_jobs"

subsection \<open>The keyword dictionary\<close>

text \<open>
  A \<^verbatim>\<open>dict\<close> with string keys, in insertion order. \<^verbatim>\<open>d.setdefault(k, v)\<close>,
  \<^verbatim>\<open>d.pop(k, v)\<close> and \<^verbatim>\<open>d.pop(k)\<close> return the dictionary they leave behind
  together with their value.
\<close>

type_synonym kwargs = "(string \<times> pyval) list"

definition setdefault :: "kwargs \<Rightarrow> string \<Rightarrow> pyval \<Rightarrow> kwargs \<times> pyval" where
  "setdefault kw k d =
     (case map_of kw k of
        Some v \<Rightarrow> (kw, v)
      | None \<Rightarrow> (AList.update k d kw, d))"

definition pop_default :: "kwargs \<Rightarrow> string \<Rightarrow> pyval \<Rightarrow> kwargs \<times> pyval" where
  "pop_default kw k d =
     (case map_of kw k of
        Some v \<Rightarrow> (AList.delete k kw, v)
      | None \<Rightarrow> (kw, d))"

definition pop :: "kwargs \<Rightarrow> string \<Rightarrow> error + (kwargs \<times> pyval)" where
  "pop kw k =
     (case map_of kw k of
        Some v \<Rightarrow> Inr (AList.delete k kw, v)
      | None \<Rightarrow> Inl (KeyError k))"

text \<open>
  Modelled from the spec: \<^verbatim>\<open>kwargs_check\<close> of energyflow/utils.py is not among the
  sources. The spec has it validate that the mapping contains only recognized keys and
  fail with a configuration error naming the offending keys otherwise.
\<close>

definition kwargs_check :: "string \<Rightarrow> kwargs \<Rightarrow> string list \<Rightarrow> error + unit" where
  "kwargs_check name kw allowed =
     (case filter (\<lambda>k. k \<notin> set allowed) (map fst kw) of
        [] \<Rightarrow> Inr ()
      | bad \<Rightarrow> Inl (ConfigurationError bad))"

subsection \<open>EFBase: construction and the measure properties\<close>

text \<open>The instance as \<^verbatim>\<open>__init__\<close> receives it: no attribute assigned yet.\<close>

definition new_obj :: ef_obj where
  "new_obj = \<lparr>measure_attr = None, n_jobs_attr = None, use_efms_attr = None\<rparr>"

text \<open>
  Lines 23-26. \<open>Measure_new\<close> is the constructor \<^verbatim>\<open>Measure(kind, **kwargs)\<close> and
  \<open>measure_kwargs\<close> the list of keys it accepts, both of energyflow/measure.py.
  The result pairs the dictionary as the call leaves it with the instance or the
  exception.
\<close>

definition EFBase_init ::
  "(pyval \<Rightarrow> kwargs \<Rightarrow> error + measure_obj) \<Rightarrow> string list \<Rightarrow> ef_obj \<Rightarrow> kwargs
     \<Rightarrow> kwargs \<times> (error + ef_obj)" where
  "EFBase_init Measure_new measure_kwargs self kw =
     (case kwargs_check ''EFBase'' kw measure_kwargs of
        Inl e \<Rightarrow> (kw, Inl e)
      | Inr u \<Rightarrow>
          (case pop kw ''measure'' of
             Inl e \<Rightarrow> (kw, Inl e)
           | Inr (kw1, kind) \<Rightarrow>
               (case Measure_new kind kw1 of
                  Inl e \<Rightarrow> (kw1, Inl e)
                | Inr m \<Rightarrow> (kw1, Inr (self\<lparr>measure_attr := Some m\<rparr>)))))"

text \<open>Lines 28-57.\<close>

definition has_measure :: "ef_obj \<Rightarrow> bool" where
  "has_measure self = (measure_attr self \<noteq> None)"

definition measure_prop :: "ef_obj \<Rightarrow> pyval" where
  "measure_prop self = (if has_measure self then m_measure (the (measure_attr self)) else PNone)"

definition beta :: "ef_obj \<Rightarrow> pyval" where
  "beta self = (if has_measure self then m_beta (the (measure_attr self)) else PNone)"

definition kappa :: "ef_obj \<Rightarrow> pyval" where
  "kappa self = (if has_measure self then m_kappa (the (measure_attr self)) else PNone)"

definition normed :: "ef_obj \<Rightarrow> pyval" where
  "normed self = (if has_measure self then m_normed (the (measure_attr self)) else PNone)"

definition coords :: "ef_obj \<Rightarrow> pyval" where
  "coords self = (if has_measure self then m_coords (the (measure_attr self)) else PNone)"

definition check_input :: "ef_obj \<Rightarrow> pyval" where
  "check_input self =
     (if has_measure self then m_check_input (the (measure_attr self)) else PNone)"

definition subslicing :: "ef_obj \<Rightarrow> pyval" where
  "subslicing self =
     (if has_measure self then m_subslicing (the (measure_attr self)) else PNone)"

subsection \<open>EFPBase\<close>

text \<open>Lines 109-118.\<close>

definition EFPBase_init ::
  "(pyval \<Rightarrow> kwargs \<Rightarrow> error + measure_obj) \<Rightarrow> string list \<Rightarrow> kwargs
     \<Rightarrow> kwargs \<times> (error + ef_obj)" where
  "EFPBase_init Measure_new measure_kwargs kw =
     (case pop_default kw ''no_measure'' (PBool False) of
        (kw1, no_measure) \<Rightarrow>
          if \<not> truthy no_measure then
            (case setdefault kw1 ''measure'' (PStr ''hadr'') of
               (kw2, d) \<Rightarrow>
                 (case EFBase_init Measure_new measure_kwargs new_obj kw2 of
                    (kw3, Inl e) \<Rightarrow> (kw3, Inl e)
                  | (kw3, Inr self) \<Rightarrow>
                      (case py_in ''efm'' (measure_prop self) of
                         Inl e \<Rightarrow> (kw3, Inl e)
                       | Inr b \<Rightarrow> (kw3, Inr (self\<lparr>use_efms_attr := Some b\<rparr>)))))
          else (kw1, Inr new_obj))"

text \<open>
  Reading \<^verbatim>\<open>self._measure\<close> on an instance built without a measure raises
  \<^verbatim>\<open>AttributeError\<close>; \<open>evaluate\<close> is \<^verbatim>\<open>Measure.evaluate\<close>.
\<close>

definition measure_evaluate ::
  "(measure_obj \<Rightarrow> 'ev \<Rightarrow> error + 'r) \<Rightarrow> ef_obj \<Rightarrow> 'ev \<Rightarrow> error + 'r" where
  "measure_evaluate evaluate self event =
     (case measure_attr self of
        None \<Rightarrow> Inl (AttributeError ''_measure'')
      | Some m \<Rightarrow> evaluate m event)"

text \<open>\<^verbatim>\<open>thetas**w\<close> on a two-dimensional array: every entry is raised to the power.\<close>

definition array_pow :: "'a::power list list \<Rightarrow> nat \<Rightarrow> 'a list list" where
  "array_pow thetas w = map (map (\<lambda>x. x ^ w)) thetas"

text \<open>
  The comprehension \<^verbatim>\<open>{w: thetas**w for w in self.weight_set}\<close>: one assignment per
  element the weight set yields.
\<close>

definition thetas_dict :: "nat list \<Rightarrow> 'a::power list list \<Rightarrow> (nat \<times> 'a list list) list" where
  "thetas_dict weight_set thetas =
     foldl (\<lambda>d w. AList.update w (array_pow thetas w) d) [] weight_set"

text \<open>Lines 120-126. An argument that is \<^verbatim>\<open>None\<close> is \<open>None\<close>.\<close>

definition get_zs_thetas_dict ::
  "(measure_obj \<Rightarrow> 'ev \<Rightarrow> error + ('z \<times> 'a::power list list)) \<Rightarrow> nat list \<Rightarrow> ef_obj
     \<Rightarrow> 'ev option \<Rightarrow> 'z option \<Rightarrow> 'a list list option
     \<Rightarrow> error + ('z \<times> (nat \<times> 'a list list) list)" where
  "get_zs_thetas_dict evaluate weight_set self event zs thetas =
     (case event of
        Some ev \<Rightarrow>
          (case measure_evaluate evaluate self ev of
             Inl e \<Rightarrow> Inl e
           | Inr (zs1, thetas1) \<Rightarrow> Inr (zs1, thetas_dict weight_set thetas1))
      | None \<Rightarrow>
          (case (zs, thetas) of
             (Some zs1, Some thetas1) \<Rightarrow> Inr (zs1, thetas_dict weight_set thetas1)
           | _ \<Rightarrow> Inl (TypeError ''If event is None then zs and thetas cannot also be None'')))"

text \<open>
  Lines 128-134; \<open>efmset_compute\<close> is \<^verbatim>\<open>self.efmset.compute\<close>, the abstract
  property's method.
\<close>

definition compute_efms ::
  "(measure_obj \<Rightarrow> 'ev \<Rightarrow> error + ('z \<times> 'p)) \<Rightarrow> ('z \<Rightarrow> 'p \<Rightarrow> error + 'r) \<Rightarrow> ef_obj
     \<Rightarrow> 'ev option \<Rightarrow> 'z option \<Rightarrow> 'p option \<Rightarrow> error + 'r" where
  "compute_efms evaluate efmset_compute self event zs phats =
     (case event of
        Some ev \<Rightarrow>
          (case measure_evaluate evaluate self ev of
             Inl e \<Rightarrow> Inl e
           | Inr (zs1, phats1) \<Rightarrow> efmset_compute zs1 phats1)
      | None \<Rightarrow>
          (case (zs, phats) of
             (Some zs1, Some phats1) \<Rightarrow> efmset_compute zs1 phats1
           | _ \<Rightarrow> Inl (TypeError ''If event is None then zs and thetas cannot also be None'')))"

subsection \<open>EFMBase\<close>

text \<open>
  Line 160: the assertion, with the \<^verbatim>\<open>setdefault\<close> it evaluates on the caller's
  dictionary.
\<close>

definition efm_measure_check :: "kwargs \<Rightarrow> kwargs \<times> (error + unit)" where
  "efm_measure_check kw =
     (case setdefault kw ''measure'' (PStr ''hadrefm'') of
        (kw1, kind) \<Rightarrow>
          (case py_in ''efm'' kind of
             Inl e \<Rightarrow> (kw1, Inl e)
           | Inr b \<Rightarrow>
               if b then (kw1, Inr ())
               else (kw1, Inl (AssertionError ''Must use an efm measure.''))))"

text \<open>Lines 157-165.\<close>

definition EFMBase_init ::
  "(pyval \<Rightarrow> kwargs \<Rightarrow> error + measure_obj) \<Rightarrow> string list \<Rightarrow> kwargs
     \<Rightarrow> kwargs \<times> (error + ef_obj)" where
  "EFMBase_init Measure_new measure_kwargs kw =
     (case efm_measure_check kw of
        (kw1, Inl e) \<Rightarrow> (kw1, Inl e)
      | (kw1, Inr u) \<Rightarrow>
          (case pop_default kw1 ''no_measure'' (PBool False) of
             (kw2, no_measure) \<Rightarrow>
               if \<not> truthy no_measure then
                 (case EFBase_init Measure_new measure_kwargs new_obj kw2 of
                    (kw3, Inl e) \<Rightarrow> (kw3, Inl e)
                  | (kw3, Inr self) \<Rightarrow>
                      (case measure_attr self of
                         None \<Rightarrow> (kw3, Inl (AttributeError ''_measure''))
                       | Some m \<Rightarrow>
                           (kw3, Inr (self\<lparr>measure_attr := Some (m\<lparr>m_beta := PNone\<rparr>)\<rparr>))))
               else (kw2, Inr new_obj)))"

text \<open>Lines 168-173, the body a subclass reaches through \<^verbatim>\<open>super\<close>.\<close>

definition EFMBase_compute ::
  "(measure_obj \<Rightarrow> 'ev \<Rightarrow> error + ('z \<times> 'p)) \<Rightarrow> ef_obj
     \<Rightarrow> 'ev option \<Rightarrow> 'z option \<Rightarrow> 'p option \<Rightarrow> error + ('z \<times> 'p)" where
  "EFMBase_compute evaluate self event zs phats =
     (case event of
        Some ev \<Rightarrow> measure_evaluate evaluate self ev
      | None \<Rightarrow>
          (case (zs, phats) of
             (Some zs1, Some phats1) \<Rightarrow> Inr (zs1, phats1)
           | _ \<Rightarrow> Inl (ValueError ''If event is None then zs and phats cannot be None.'')))"

subsection \<open>Sample collaborators\<close>

text \<open>
  Concrete stand-ins for the collaborators of energyflow/measure.py, on which the
  definitions above are evaluated: a \<^verbatim>\<open>Measure\<close> constructor that stores the kind and
  the \<^verbatim>\<open>beta\<close> keyword (default 1), an instance holding such a measure, and an
  \<^verbatim>\<open>evaluate\<close> that returns the event as \<open>zs\<close> with the table of pairwise
  differences as \<open>thetas\<close>.
\<close>

abbreviation sample_Measure :: "pyval \<Rightarrow> kwargs \<Rightarrow> error + measure_obj" where
  "sample_Measure \<equiv> \<lambda>kind kw. Inr
     \<lparr>m_measure = kind,
      m_beta = (case map_of kw ''beta'' of Some b \<Rightarrow> b | None \<Rightarrow> PNum 1),
      m_kappa = PNum 1, m_normed = PBool True, m_coords = PNone,
      m_check_input = PBool True, m_subslicing = PBool False\<rparr>"

abbreviation sample_obj :: ef_obj where
  "sample_obj \<equiv> new_obj\<lparr>measure_attr := Some
     \<lparr>m_measure = PStr ''hadr'', m_beta = PNum 1, m_kappa = PNum 1, m_normed = PBool True,
      m_coords = PNone, m_check_input = PBool True, m_subslicing = PBool False\<rparr>\<rparr>"

abbreviation sample_evaluate :: "measure_obj \<Rightarrow> int list \<Rightarrow> error + (int list \<times> int list list)" where
  "sample_evaluate \<equiv> \<lambda>m event. Inr (event, map (\<lambda>p. map (\<lambda>q. p - q) event) event)"


section \<open>Properties\<close>

subsection \<open>Sequential evaluation and chunked dispatch\<close>

lemma map_seq_append:
  "map_seq f (xs @ ys) =
     (case map_seq f xs of
        Inl e \<Rightarrow> Inl e
      | Inr a \<Rightarrow> (case map_seq f ys of Inl e \<Rightarrow> Inl e | Inr b \<Rightarrow> Inr (a @ b)))"
  by (induction xs) (auto split: sum.splits)

lemma collect_chunks:
  "0 < k \<Longrightarrow> collect (map (map_seq f) (chunks k xs)) = map_seq f xs"
proof (induction k xs rule: chunks.induct)
  case (1 k xs)
  show ?case
  proof (cases "xs = []")
    case True
    then show ?thesis by (simp add: chunks.simps)
  next
    case False
    with "1.prems" have step: "chunks k xs = take k xs # chunks k (drop k xs)"
      by (subst chunks.simps) simp
    have ih: "collect (map (map_seq f) (chunks k (drop k xs))) = map_seq f (drop k xs)"
      using "1.IH" "1.prems" False by simp
    have "map_seq f xs = map_seq f (take k xs @ drop k xs)" by simp
    also have "\<dots> = collect (map (map_seq f) (chunks k xs))"
      unfolding map_seq_append step by (simp add: ih split: sum.splits)
    finally show ?thesis by simp
  qed
qed

lemma imap_map_seq: "1 \<le> c \<Longrightarrow> imap f events c = map_seq f events"
  by (simp add: imap_def collect_chunks)

lemma map_seq_Inr_iff:
  "map_seq f xs = Inr ys \<longleftrightarrow> map f xs = map Inr ys"
proof (induction xs arbitrary: ys)
  case Nil
  then show ?case by auto
next
  case (Cons a xs)
  show ?case
  proof (cases "f a")
    case (Inl e)
    then show ?thesis by (auto simp: map_eq_Cons_conv)
  next
    case (Inr y)
    show ?thesis
    proof (cases "map_seq f xs")
      case (Inl e)
      have "\<And>zs. map f xs \<noteq> map Inr zs" using Cons.IH Inl by simp
      with Inl Inr show ?thesis by (auto simp: map_eq_Cons_conv)
    next
      case r: (Inr zs)
      have "map f xs = map Inr zs" using Cons.IH[of zs] r by simp
      with r Inr show ?thesis by (auto simp: map_eq_Cons_conv)
    qed
  qed
qed

lemma batch_compute_func_eta: "batch_compute_func compute s = compute s"
  by (rule ext) (simp add: batch_compute_func_def)

lemma map_seq_nth:
  assumes "map_seq f xs = Inr ys"
  shows "length ys = length xs \<and> (\<forall>i<length xs. f (xs ! i) = Inr (ys ! i))"
proof -
  from assms have eq: "map f xs = map Inr ys" by (simp add: map_seq_Inr_iff)
  then have len: "length ys = length xs" by (metis length_map)
  have "f (xs ! i) = Inr (ys ! i)" if "i < length xs" for i
    using eq that len by (metis nth_map)
  with len show ?thesis by simp
qed

lemma map_seq_total:
  "\<forall>x\<in>set xs. \<exists>v. f x = Inr v \<Longrightarrow> map_seq f xs = Inr (map (\<lambda>x. projr (f x)) xs)"
  by (induction xs) auto

subsection \<open>Chunk size and the result of batch\_compute\<close>

lemma chunksize_nonzero:
  "n \<noteq> 0 \<Longrightarrow> chunksize events n = Inr (min (max (int (length events) div n) 1) 10000)"
  by (simp add: chunksize_def floordiv_def)

lemma chunksize_bounds:
  "n \<noteq> 0 \<Longrightarrow> \<exists>c. chunksize events n = Inr c \<and> 1 \<le> c \<and> c \<le> 10000"
  by (simp add: chunksize_def floordiv_def)

lemma batch_compute_result:
  assumes "1 \<le> resolve_n_jobs ev n_jobs"
  shows "snd (snd (batch_compute ev compute self events n_jobs)) =
     map_seq (compute (self\<lparr>n_jobs_attr := Some (resolve_n_jobs ev n_jobs)\<rparr>)) events"
proof -
  let ?n = "resolve_n_jobs ev n_jobs"
  let ?f = "batch_compute_func compute (self\<lparr>n_jobs_attr := Some ?n\<rparr>)"
  note f = batch_compute_func_eta
  show ?thesis
  proof (cases "?n = 1")
    case True
    then show ?thesis by (simp add: batch_compute_def batch_compute_with_def Let_def f)
  next
    case False
    with assms have n2: "?n \<noteq> 0" "\<not> ?n < 1" by auto
    obtain c where c: "chunksize events ?n = Inr c" "1 \<le> c"
      using chunksize_bounds[OF n2(1)] by blast
    have im: "imap (compute (self\<lparr>n_jobs_attr := Some ?n\<rparr>)) events c =
        map_seq (compute (self\<lparr>n_jobs_attr := Some ?n\<rparr>)) events"
      using c(2) by (rule imap_map_seq)
    show ?thesis using False n2 c(1)
      by (simp add: batch_compute_def batch_compute_with_def Let_def Pool_new_def im f split: sum.splits)
  qed
qed

lemma batch_compute_self:
  "fst (batch_compute ev compute self events n_jobs) =
     self\<lparr>n_jobs_attr := Some (resolve_n_jobs ev n_jobs)\<rparr>"
  by (simp add: batch_compute_def batch_compute_with_def Let_def split: sum.splits)

lemma batch_compute_cong:
  assumes "\<And>e. compute' (self\<lparr>n_jobs_attr := Some (resolve_n_jobs ev n_jobs)\<rparr>) e =
              compute (self\<lparr>n_jobs_attr := Some (resolve_n_jobs ev n_jobs)\<rparr>) e"
  shows "batch_compute ev compute' self events n_jobs = batch_compute ev compute self events n_jobs"
proof -
  have h: "batch_compute_func compute' (self\<lparr>n_jobs_attr := Some (resolve_n_jobs ev n_jobs)\<rparr>) =
        batch_compute_func compute (self\<lparr>n_jobs_attr := Some (resolve_n_jobs ev n_jobs)\<rparr>)"
    by (rule ext) (simp add: batch_compute_func_def assms)
  show ?thesis by (simp only: batch_compute_def batch_compute_with_def Let_def h)
qed

lemma resolve_ge_1:
  assumes "n_jobs = 1 \<or> n_jobs = 2 \<or> n_jobs = - 1"
      and "\<forall>c. cpu_count ev = Inr c \<longrightarrow> 1 \<le> c"
  shows "1 \<le> resolve_n_jobs ev n_jobs"
  using assms by (auto simp: resolve_n_jobs_def split: sum.splits)

lemma batch_compute_py3_pool:
  "py_major ev = 3 \<Longrightarrow>
     fst (snd (batch_compute ev compute self events n_jobs)) \<in> {NoPool, Terminated}"
  by (simp add: batch_compute_def batch_compute_with_def Let_def split: sum.splits)

lemma batch_compute_py2_pool_ok:
  "snd (snd (batch_compute ev compute self events n_jobs)) = Inr rs \<Longrightarrow>
     fst (snd (batch_compute ev compute self events n_jobs)) \<in> {NoPool, Closed, Terminated}"
  by (auto simp: batch_compute_def batch_compute_with_def Let_def split: sum.splits if_splits)

subsection \<open>Claims about batch\_compute\<close>

text \<open>
  Claim C1. For \<open>n_jobs\<close> among 1, 2 and -1 (auto), on a machine whose detected CPU
  count is at least one, \<^verbatim>\<open>batch_compute\<close> returns exactly what evaluating the events
  one after the other returns: the same vector, in input order, whatever the worker
  count and the chunking; the i-th element is the single-event result of the i-th
  event, and when every event evaluates the call returns their results.
\<close>

theorem batch_compute_order:
  assumes "n_jobs = 1 \<or> n_jobs = 2 \<or> n_jobs = - 1"
      and "\<forall>c. cpu_count ev = Inr c \<longrightarrow> 1 \<le> c"
  shows "(let self1 = self\<lparr>n_jobs_attr := Some (resolve_n_jobs ev n_jobs)\<rparr>;
              result = snd (snd (batch_compute ev compute self events n_jobs))
          in result = map_seq (compute self1) events
           \<and> ((\<forall>e\<in>set events. \<exists>v. compute self1 e = Inr v) \<longrightarrow>
                result = Inr (map (\<lambda>e. projr (compute self1 e)) events))
           \<and> (\<forall>rs. result = Inr rs \<longrightarrow>
                length rs = length events
                \<and> (\<forall>i<length events. compute self1 (events ! i) = Inr (rs ! i))))"
proof -
  let ?self1 = "self\<lparr>n_jobs_attr := Some (resolve_n_jobs ev n_jobs)\<rparr>"
  let ?result = "snd (snd (batch_compute ev compute self events n_jobs))"
  have r: "?result = map_seq (compute ?self1) events"
    using resolve_ge_1[OF assms] by (rule batch_compute_result)
  have t: "(\<forall>e\<in>set events. \<exists>v. compute ?self1 e = Inr v) \<longrightarrow>
      ?result = Inr (map (\<lambda>e. projr (compute ?self1 e)) events)"
    using r map_seq_total[of events "compute ?self1"] by simp
  have n: "\<forall>rs. ?result = Inr rs \<longrightarrow>
      length rs = length events \<and> (\<forall>i<length events. compute ?self1 (events ! i) = Inr (rs ! i))"
    using r map_seq_nth[of "compute ?self1" events] by simp
  show ?thesis unfolding Let_def using r t n by blast
qed

theorem batch_compute_order_witness:
  "snd (snd (batch_compute \<lparr>cpu_count = Inr 4, py_major = 3\<rparr>
        (\<lambda>s e. Inr (e + the (n_jobs_attr s))) new_obj [10, 20, 30 :: int] 2)) = Inr [12, 22, 32]"
  using batch_compute_order[where n_jobs = 2 and ev = "\<lparr>cpu_count = Inr 4, py_major = 3\<rparr>"
      and self = new_obj and compute = "\<lambda>s e. Inr (e + the (n_jobs_attr s))"
      and events = "[10, 20, 30 :: int]"]
  by (simp add: Let_def resolve_n_jobs_def new_obj_def)

text \<open>
  Claim C5. A call hands events to a pool exactly when the resolved \<open>n_jobs\<close> is at
  least 2. Then, for every sequence of events (the non-empty ones in particular) and
  whatever the pool does with them, the chunk size of line 90 is computed, lies between
  1 and 10000, equals the clamp of \<open>len(events) // n_jobs\<close>, and is the chunk size
  the pool is called with: the call returns what \<^verbatim>\<open>pool.imap\<close> returns on the
  subclass's function, the events and this chunk size. With a resolved \<open>n_jobs\<close>
  below 2 the pool is never asked anything.
\<close>

theorem chunksize_dispatch:
  "(let n = resolve_n_jobs ev n_jobs;
        self1 = self\<lparr>n_jobs_attr := Some n\<rparr>;
        c = min (max (int (length events) div n) 1) 10000
    in (2 \<le> n \<longrightarrow>
          chunksize events n = Inr c \<and> 1 \<le> c \<and> c \<le> 10000
          \<and> snd (snd (batch_compute_with pool_imap ev compute self events n_jobs)) =
              pool_imap (compute self1) events c
          \<and> snd (snd (batch_compute ev compute self events n_jobs)) =
              imap (compute self1) events c)
     \<and> (n < 2 \<longrightarrow>
          (\<forall>pool_imap'. batch_compute_with pool_imap' ev compute self events n_jobs =
                        batch_compute_with pool_imap ev compute self events n_jobs)))"
proof -
  let ?n = "resolve_n_jobs ev n_jobs"
  let ?self1 = "self\<lparr>n_jobs_attr := Some ?n\<rparr>"
  let ?c = "min (max (int (length events) div ?n) 1) 10000"
  have disp: "snd (snd (batch_compute_with p ev compute self events n_jobs)) =
      p (compute ?self1) events ?c" if "2 \<le> ?n" for p
  proof -
    from that have n: "?n \<noteq> 1" "?n \<noteq> 0" "\<not> ?n < 1" by simp_all
    have c: "chunksize events ?n = Inr ?c" using n(2) by (rule chunksize_nonzero)
    show ?thesis using n c
      by (simp add: batch_compute_with_def Let_def Pool_new_def batch_compute_func_eta
          split: sum.splits)
  qed
  have a: "chunksize events ?n = Inr ?c \<and> 1 \<le> ?c \<and> ?c \<le> 10000" if "2 \<le> ?n"
  proof -
    from that have "?n \<noteq> 0" by simp
    then have "chunksize events ?n = Inr ?c" by (rule chunksize_nonzero)
    then show ?thesis by simp
  qed
  have b: "snd (snd (batch_compute ev compute self events n_jobs)) =
      imap (compute ?self1) events ?c" if "2 \<le> ?n"
    using disp[OF that, of imap] by (simp add: batch_compute_def)
  have none: "batch_compute_with p' ev compute self events n_jobs =
      batch_compute_with p ev compute self events n_jobs" if "?n < 2" for p p'
  proof (cases "?n = 1")
    case True
    then show ?thesis by (simp add: batch_compute_with_def Let_def)
  next
    case False
    with that have "?n < 1" by simp
    then show ?thesis
      by (simp add: batch_compute_with_def Let_def Pool_new_def split: sum.splits)
  qed
  show ?thesis unfolding Let_def using a b disp none by blast
qed

theorem chunksize_dispatch_witness:
  "snd (snd (batch_compute_with (\<lambda>f es c. Inr [c]) \<lparr>cpu_count = Inr 3, py_major = 3\<rparr>
        (\<lambda>s e. Inr (int e)) new_obj [1, 2, 3, 4, 5, 6, 7 :: nat] (- 1))) = Inr [2]
   \<and> chunksize [1, 2, 3, 4, 5, 6, 7 :: nat] 3 = Inr 2
   \<and> snd (snd (batch_compute_with (\<lambda>f es c. Inr [c]) \<lparr>cpu_count = Inr 3, py_major = 2\<rparr>
        (\<lambda>s e. Inr 0) new_obj [()] 4)) = Inr [1]
   \<and> snd (snd (batch_compute_with (\<lambda>f es c. Inr [c]) \<lparr>cpu_count = Inr 3, py_major = 3\<rparr>
        (\<lambda>s e. Inr 0) new_obj (replicate 50000 ()) 2)) = Inr [10000]"
proof -
  have a: "snd (snd (batch_compute_with (\<lambda>f es c. Inr [c]) \<lparr>cpu_count = Inr 3, py_major = 3\<rparr>
        (\<lambda>s e. Inr (int e)) new_obj [1, 2, 3, 4, 5, 6, 7 :: nat] (- 1))) = Inr [2]"
    and a': "chunksize [1, 2, 3, 4, 5, 6, 7 :: nat] 3 = Inr 2"
    using chunksize_dispatch[where ev = "\<lparr>cpu_count = Inr 3, py_major = 3\<rparr>" and n_jobs = "- 1"
        and self = new_obj and events = "[1, 2, 3, 4, 5, 6, 7 :: nat]"
        and pool_imap = "\<lambda>f es c. Inr [c]" and compute = "\<lambda>s e. Inr (int e)",
        unfolded Let_def, THEN conjunct1]
    by (simp_all add: resolve_n_jobs_def)
  have b: "snd (snd (batch_compute_with (\<lambda>f es c. Inr [c]) \<lparr>cpu_count = Inr 3, py_major = 2\<rparr>
        (\<lambda>s e. Inr 0) new_obj [()] 4)) = Inr [1]"
    using chunksize_dispatch[where ev = "\<lparr>cpu_count = Inr 3, py_major = 2\<rparr>" and n_jobs = 4
        and self = new_obj and events = "[()]"
        and pool_imap = "\<lambda>f es c. Inr [c]" and compute = "\<lambda>s e. Inr 0",
        unfolded Let_def, THEN conjunct1]
    by (simp add: resolve_n_jobs_def)
  have n: "resolve_n_jobs \<lparr>cpu_count = Inr 3, py_major = 3\<rparr> 2 = 2"
    by (simp add: resolve_n_jobs_def)
  have c: "snd (snd (batch_compute_with (\<lambda>f es c. Inr [c]) \<lparr>cpu_count = Inr 3, py_major = 3\<rparr>
        (\<lambda>s e. Inr 0) new_obj (replicate 50000 ()) 2)) = Inr [10000]"
    using chunksize_dispatch[where ev = "\<lparr>cpu_count = Inr 3, py_major = 3\<rparr>" and n_jobs = 2
        and self = new_obj and events = "replicate 50000 ()"
        and pool_imap = "\<lambda>f es c. Inr [c]" and compute = "\<lambda>s e. Inr 0",
        unfolded Let_def n length_replicate, THEN conjunct1]
    by simp
  show ?thesis by (intro conjI a a' b c)
qed

text \<open>
  Claim C6. \<open>n_jobs = -1\<close> resolves to the detected CPU count, or to 4 when the
  detection raises anything; any other value is kept. On every path, also the failing
  ones, the instance the call leaves behind carries the resolved value, and the result
  depends on \<open>compute\<close> only through its values on the instance that already carries
  it: the value is stored before any event is evaluated.
\<close>

theorem n_jobs_resolved:
  "(let r = resolve_n_jobs ev n_jobs;
        out = batch_compute ev compute self events n_jobs
    in (n_jobs = - 1 \<longrightarrow> (\<forall>c. cpu_count ev = Inr c \<longrightarrow> r = c))
     \<and> (n_jobs = - 1 \<longrightarrow> (\<forall>e. cpu_count ev = Inl e \<longrightarrow> r = 4))
     \<and> (n_jobs \<noteq> - 1 \<longrightarrow> r = n_jobs)
     \<and> n_jobs_attr (fst out) = Some r
     \<and> fst out = self\<lparr>n_jobs_attr := Some r\<rparr>
     \<and> (\<forall>compute'. (\<forall>e. compute' (self\<lparr>n_jobs_attr := Some r\<rparr>) e =
                          compute (self\<lparr>n_jobs_attr := Some r\<rparr>) e) \<longrightarrow>
           batch_compute ev compute' self events n_jobs = out))"
proof -
  let ?r = "resolve_n_jobs ev n_jobs"
  let ?out = "batch_compute ev compute self events n_jobs"
  have a: "n_jobs = - 1 \<longrightarrow> (\<forall>c. cpu_count ev = Inr c \<longrightarrow> ?r = c)"
    by (simp add: resolve_n_jobs_def)
  have b: "n_jobs = - 1 \<longrightarrow> (\<forall>e. cpu_count ev = Inl e \<longrightarrow> ?r = 4)"
    by (simp add: resolve_n_jobs_def)
  have c: "n_jobs \<noteq> - 1 \<longrightarrow> ?r = n_jobs"
    by (simp add: resolve_n_jobs_def)
  have d: "fst ?out = self\<lparr>n_jobs_attr := Some ?r\<rparr>"
    by (rule batch_compute_self)
  have e: "n_jobs_attr (fst ?out) = Some ?r"
    by (simp add: d)
  have f: "\<forall>compute'. (\<forall>e. compute' (self\<lparr>n_jobs_attr := Some ?r\<rparr>) e =
                          compute (self\<lparr>n_jobs_attr := Some ?r\<rparr>) e) \<longrightarrow>
           batch_compute ev compute' self events n_jobs = ?out"
    using batch_compute_cong by blast
  show ?thesis unfolding Let_def using a b c d e f by blast
qed

theorem n_jobs_resolved_witness:
  "resolve_n_jobs \<lparr>cpu_count = Inl (OtherError ''NotImplementedError''), py_major = 3\<rparr> (- 1) = 4
   \<and> n_jobs_attr (fst (batch_compute
        \<lparr>cpu_count = Inl (OtherError ''NotImplementedError''), py_major = 3\<rparr>
        (\<lambda>s e. Inr e) new_obj [1, 2 :: nat] (- 1))) = Some 4
   \<and> n_jobs_attr (fst (batch_compute \<lparr>cpu_count = Inr 8, py_major = 3\<rparr>
        (\<lambda>s e. Inr e) new_obj [1, 2 :: nat] (- 1))) = Some 8
   \<and> n_jobs_attr (fst (batch_compute \<lparr>cpu_count = Inr 8, py_major = 3\<rparr>
        (\<lambda>s e. Inr e) new_obj [1, 2 :: nat] 0)) = Some 0"
proof -
  note a = n_jobs_resolved[where n_jobs = "- 1"
      and ev = "\<lparr>cpu_count = Inl (OtherError ''NotImplementedError''), py_major = 3\<rparr>"
      and compute = "\<lambda>s e. Inr e" and self = new_obj and events = "[1, 2 :: nat]",
      unfolded Let_def]
  note b = n_jobs_resolved[where n_jobs = "- 1" and ev = "\<lparr>cpu_count = Inr 8, py_major = 3\<rparr>"
      and compute = "\<lambda>s e. Inr e" and self = new_obj and events = "[1, 2 :: nat]",
      unfolded Let_def]
  note c = n_jobs_resolved[where n_jobs = 0 and ev = "\<lparr>cpu_count = Inr 8, py_major = 3\<rparr>"
      and compute = "\<lambda>s e. Inr e" and self = new_obj and events = "[1, 2 :: nat]",
      unfolded Let_def]
  have r: "resolve_n_jobs \<lparr>cpu_count = Inl (OtherError ''NotImplementedError''), py_major = 3\<rparr> (- 1) = 4"
    using a[THEN conjunct2, THEN conjunct1] by simp
  show ?thesis
    using r a[THEN conjunct2, THEN conjunct2, THEN conjunct2, THEN conjunct1]
      b[THEN conjunct1] b[THEN conjunct2, THEN conjunct2, THEN conjunct2, THEN conjunct1]
      c[THEN conjunct2, THEN conjunct2, THEN conjunct1]
      c[THEN conjunct2, THEN conjunct2, THEN conjunct2, THEN conjunct1]
    by simp
qed

text \<open>
  Claim C7. Under Python 3 the pool is terminated on every exit
  (\<open>batch_compute_py3_pool\<close>), and a call that returns a vector never leaves a running
  pool (\<open>batch_compute_py2_pool_ok\<close>). Under Python 2 a failing event leaves the pool
  running: \<^verbatim>\<open>pool.close()\<close> is skipped when the evaluation raises. The same call
  under both interpreters:
\<close>

theorem batch_compute_py2_pool_leak:
  "batch_compute \<lparr>cpu_count = Inr 4, py_major = 2\<rparr>
       (\<lambda>s e. if e = 0 then Inl (ValueError ''bad event'') else Inr e) new_obj [1, 0 :: int] 2
     = (new_obj\<lparr>n_jobs_attr := Some 2\<rparr>, Running, Inl (ValueError ''bad event''))
   \<and> batch_compute \<lparr>cpu_count = Inr 4, py_major = 3\<rparr>
       (\<lambda>s e. if e = 0 then Inl (ValueError ''bad event'') else Inr e) new_obj [1, 0 :: int] 2
     = (new_obj\<lparr>n_jobs_attr := Some 2\<rparr>, Terminated, Inl (ValueError ''bad event''))"
  by (simp add: batch_compute_def batch_compute_with_def Let_def resolve_n_jobs_def chunksize_def floordiv_def
      Pool_new_def imap_map_seq batch_compute_func_eta)

subsection \<open>Strings, the keyword dictionary and the constructors\<close>

lemma str_contains_sublist: "str_contains sub s \<longleftrightarrow> sublist sub s"
  by (induction s) (auto simp: sublist_Cons_right)

lemma py_in_str: "py_in sub (PStr s) = Inr (sublist sub s)"
  by (simp add: str_contains_sublist)

lemma efm_in_hadrefm: "sublist ''efm'' ''hadrefm''"
  by (simp add: str_contains_sublist[symmetric])

lemma efm_measure_check_given:
  "map_of kw ''measure'' = Some (PStr k) \<Longrightarrow>
     efm_measure_check kw =
       (kw, if sublist ''efm'' k then Inr () else Inl (AssertionError ''Must use an efm measure.''))"
  by (simp add: efm_measure_check_def setdefault_def str_contains_sublist)

lemma efm_measure_check_default:
  "map_of kw ''measure'' = None \<Longrightarrow>
     efm_measure_check kw = (AList.update ''measure'' (PStr ''hadrefm'') kw, Inr ())"
  using efm_in_hadrefm
  by (simp add: efm_measure_check_def setdefault_def str_contains_sublist del: str_contains.simps)

lemma EFMBase_init_check_fails:
  "snd (efm_measure_check kw) = Inl e \<Longrightarrow>
     EFMBase_init Measure_new measure_kwargs kw = (fst (efm_measure_check kw), Inl e)"
  by (cases "efm_measure_check kw") (simp add: EFMBase_init_def)

lemma EFBase_init_measure:
  "EFBase_init Measure_new measure_kwargs self kw = (kw', Inr obj) \<Longrightarrow>
     \<exists>m. obj = self\<lparr>measure_attr := Some m\<rparr>"
  by (auto simp: EFBase_init_def split: sum.splits prod.splits)

lemma accessors_new_obj:
  "\<not> has_measure new_obj" "measure_prop new_obj = PNone" "beta new_obj = PNone"
  "kappa new_obj = PNone" "normed new_obj = PNone" "coords new_obj = PNone"
  "check_input new_obj = PNone" "subslicing new_obj = PNone"
  by (simp_all add: has_measure_def measure_prop_def beta_def kappa_def normed_def coords_def
      check_input_def subslicing_def new_obj_def)

lemma EFMBase_init_cases:
  assumes "snd (EFMBase_init Measure_new measure_kwargs kw) = Inr obj"
  shows "obj = new_obj \<or> (\<exists>m. obj = new_obj\<lparr>measure_attr := Some (m\<lparr>m_beta := PNone\<rparr>)\<rparr>)"
proof -
  obtain kw1 r where c: "efm_measure_check kw = (kw1, r)" by (cases "efm_measure_check kw")
  obtain kw2 nm where p: "pop_default kw1 ''no_measure'' (PBool False) = (kw2, nm)"
    by (cases "pop_default kw1 ''no_measure'' (PBool False)")
  obtain kw3 r3 where b: "EFBase_init Measure_new measure_kwargs new_obj kw2 = (kw3, r3)"
    by (cases "EFBase_init Measure_new measure_kwargs new_obj kw2")
  show ?thesis
  proof (cases r)
    case (Inl e)
    with assms c show ?thesis by (simp add: EFMBase_init_def)
  next
    case (Inr u)
    show ?thesis
    proof (cases "truthy nm")
      case True
      with assms c p Inr show ?thesis by (simp add: EFMBase_init_def)
    next
      case False
      show ?thesis
      proof (cases r3)
        case (Inl e)
        with assms c p b Inr False show ?thesis by (simp add: EFMBase_init_def)
      next
        case r3: (Inr self)
        from b r3 obtain m where m: "self = new_obj\<lparr>measure_attr := Some m\<rparr>"
          using EFBase_init_measure by blast
        with assms c p b Inr False r3 show ?thesis by (auto simp: EFMBase_init_def)
      qed
    qed
  qed
qed

lemma efm_measure_check_no_measure:
  "snd (efm_measure_check kw) = Inr u \<Longrightarrow>
     map_of (fst (efm_measure_check kw)) ''no_measure'' = map_of kw ''no_measure''"
  by (auto simp: efm_measure_check_def setdefault_def update_conv' split: option.splits sum.splits)

lemma EFPBase_init_no_measure:
  "map_of kw ''no_measure'' = Some v \<Longrightarrow> truthy v \<Longrightarrow>
     EFPBase_init Measure_new measure_kwargs kw = (AList.delete ''no_measure'' kw, Inr new_obj)"
  by (simp add: EFPBase_init_def pop_default_def)

lemma EFMBase_init_no_measure:
  assumes "map_of kw ''no_measure'' = Some v" and "truthy v"
      and "efm_measure_check kw = (kw1, Inr u)"
  shows "EFMBase_init Measure_new measure_kwargs kw = (AList.delete ''no_measure'' kw1, Inr new_obj)"
proof -
  have "map_of kw1 ''no_measure'' = Some v"
    using efm_measure_check_no_measure[of kw u] assms by simp
  with assms show ?thesis by (simp add: EFMBase_init_def pop_default_def)
qed

lemmas init_defs = EFMBase_init_def EFPBase_init_def EFBase_init_def efm_measure_check_def
  setdefault_def pop_default_def pop_def kwargs_check_def new_obj_def

subsection \<open>The angle-power table\<close>

lemma thetas_dict_fold:
  "map_of (foldl (\<lambda>d w. AList.update w (f w) d) d0 ws) w =
     (if w \<in> set ws then Some (f w) else map_of d0 w)"
  by (induction ws arbitrary: d0) (auto simp: update_conv')

lemma thetas_dict_lookup:
  "map_of (thetas_dict weight_set thetas) w =
     (if w \<in> set weight_set then Some (map (map (\<lambda>x. x ^ w)) thetas) else None)"
  by (simp add: thetas_dict_def thetas_dict_fold array_pow_def)

subsection \<open>Claims about the constructors and the accessors\<close>

text \<open>
  Claim C3. Whenever the constructor of \<^verbatim>\<open>EFMBase\<close> succeeds, whatever the keyword
  dictionary (and so whatever \<^verbatim>\<open>beta\<close> it carries) and whatever the \<^verbatim>\<open>Measure\<close>
  constructor does with it, the \<^verbatim>\<open>beta\<close> property of the instance is \<^verbatim>\<open>None\<close>: with
  a measure attached because line 165 clears it, without one because the property
  answers \<^verbatim>\<open>None\<close>.
\<close>

theorem efm_beta_none:
  assumes "snd (EFMBase_init Measure_new measure_kwargs kw) = Inr obj"
  shows "beta obj = PNone"
  using EFMBase_init_cases[OF assms]
  by (auto simp: beta_def has_measure_def new_obj_def)

theorem efm_beta_none_witness:
  "\<not> isl (snd (EFMBase_init sample_Measure [''measure'', ''beta''] [(''beta'', PNum 2)]))
   \<and> beta (projr (snd (EFMBase_init sample_Measure [''measure'', ''beta''] [(''beta'', PNum 2)])))
       = PNone
   \<and> beta (projr (snd (EFPBase_init sample_Measure [''measure'', ''beta''] [(''beta'', PNum 2)])))
       = PNum 2"
proof -
  let ?r = "snd (EFMBase_init sample_Measure [''measure'', ''beta''] [(''beta'', PNum 2)])"
  have ok: "\<not> isl ?r" by (simp add: init_defs)
  then have "?r = Inr (projr ?r)" by simp
  from efm_beta_none[OF this] have "beta (projr ?r) = PNone" .
  moreover have "beta (projr (snd (EFPBase_init sample_Measure [''measure'', ''beta'']
      [(''beta'', PNum 2)]))) = PNum 2"
    by (simp add: init_defs beta_def has_measure_def measure_prop_def)
  ultimately show ?thesis using ok by simp
qed

text \<open>
  Claim C4. For a measure kind given as a string, the check of line 160 passes exactly
  when the kind contains \<^verbatim>\<open>efm\<close>; with a kind that does not contain it the
  constructor raises the assertion error, leaves the dictionary as it was and never
  reaches the \<^verbatim>\<open>Measure\<close> constructor. With no kind given the check stores
  \<^verbatim>\<open>hadrefm\<close> and passes. A failing check is the outcome of the constructor.
\<close>

theorem efm_measure_kind_check:
  "(\<forall>k. map_of kw ''measure'' = Some (PStr k) \<longrightarrow>
      (snd (efm_measure_check kw) = Inr () \<longleftrightarrow> sublist ''efm'' k)
      \<and> (\<not> sublist ''efm'' k \<longrightarrow>
           EFMBase_init Measure_new measure_kwargs kw =
             (kw, Inl (AssertionError ''Must use an efm measure.''))))
   \<and> (map_of kw ''measure'' = None \<longrightarrow>
        efm_measure_check kw = (AList.update ''measure'' (PStr ''hadrefm'') kw, Inr ()))
   \<and> (\<forall>e. snd (efm_measure_check kw) = Inl e \<longrightarrow>
        EFMBase_init Measure_new measure_kwargs kw = (fst (efm_measure_check kw), Inl e))"
proof -
  have a: "(snd (efm_measure_check kw) = Inr () \<longleftrightarrow> sublist ''efm'' k)
      \<and> (\<not> sublist ''efm'' k \<longrightarrow>
           EFMBase_init Measure_new measure_kwargs kw =
             (kw, Inl (AssertionError ''Must use an efm measure.'')))"
    if "map_of kw ''measure'' = Some (PStr k)" for k
    using efm_measure_check_given[OF that]
      EFMBase_init_check_fails[of kw "AssertionError ''Must use an efm measure.''"
        Measure_new measure_kwargs]
    by simp
  show ?thesis
    using a efm_measure_check_default[of kw] EFMBase_init_check_fails[of kw]
    by blast
qed

theorem efm_measure_kind_check_witness:
  "EFMBase_init sample_Measure [''measure'', ''beta''] [(''measure'', PStr ''hadr'')] =
     ([(''measure'', PStr ''hadr'')], Inl (AssertionError ''Must use an efm measure.''))
   \<and> snd (efm_measure_check [(''measure'', PStr ''hadrefm'')]) = Inr ()
   \<and> efm_measure_check [] = ([(''measure'', PStr ''hadrefm'')], Inr ())"
proof -
  note a = efm_measure_kind_check[where kw = "[(''measure'', PStr ''hadr'')]"
      and Measure_new = sample_Measure and measure_kwargs = "[''measure'', ''beta'']",
      THEN conjunct1, THEN spec, of "''hadr''"]
  note b = efm_measure_kind_check[where kw = "[(''measure'', PStr ''hadrefm'')]"
      and Measure_new = sample_Measure and measure_kwargs = "[''measure'', ''beta'']",
      THEN conjunct1, THEN spec, of "''hadrefm''"]
  note c = efm_measure_kind_check[where kw = "[]"
      and Measure_new = sample_Measure and measure_kwargs = "[''measure'', ''beta'']",
      THEN conjunct2, THEN conjunct1]
  have na: "\<not> sublist ''efm'' ''hadr''" by (simp add: str_contains_sublist[symmetric])
  have nb: "sublist ''efm'' ''hadrefm''" by (rule efm_in_hadrefm)
  show ?thesis using a b c na nb by simp
qed

text \<open>
  Claim C8. With a truthy \<^verbatim>\<open>no_measure\<close> in the keyword dictionary the constructor
  of \<^verbatim>\<open>EFPBase\<close> succeeds and assigns nothing, and every instance that either
  constructor returns has \<^verbatim>\<open>has_measure()\<close> false and \<^verbatim>\<open>None\<close> for the measure
  kind, \<^verbatim>\<open>beta\<close>, \<^verbatim>\<open>kappa\<close>, \<^verbatim>\<open>normed\<close>, \<^verbatim>\<open>coords\<close>, \<^verbatim>\<open>check_input\<close> and
  \<^verbatim>\<open>subslicing\<close>.
\<close>

theorem no_measure_accessors:
  assumes "map_of kw ''no_measure'' = Some v" and "truthy v"
  shows "snd (EFPBase_init Measure_new measure_kwargs kw) = Inr new_obj
       \<and> (\<forall>obj. snd (EFPBase_init Measure_new measure_kwargs kw) = Inr obj
                \<or> snd (EFMBase_init Measure_new measure_kwargs kw) = Inr obj \<longrightarrow>
            \<not> has_measure obj \<and> measure_prop obj = PNone \<and> beta obj = PNone
            \<and> kappa obj = PNone \<and> normed obj = PNone \<and> coords obj = PNone
            \<and> check_input obj = PNone \<and> subslicing obj = PNone)"
proof -
  have p: "snd (EFPBase_init Measure_new measure_kwargs kw) = Inr new_obj"
    using EFPBase_init_no_measure[OF assms] by simp
  have m: "obj = new_obj" if "snd (EFMBase_init Measure_new measure_kwargs kw) = Inr obj" for obj
  proof (cases "efm_measure_check kw")
    case (Pair kw1 r)
    show ?thesis
    proof (cases r)
      case (Inl e)
      with Pair that show ?thesis by (simp add: EFMBase_init_def)
    next
      case (Inr u)
      with Pair have "efm_measure_check kw = (kw1, Inr u)" by simp
      from EFMBase_init_no_measure[OF assms this] that show ?thesis by simp
    qed
  qed
  show ?thesis using p m accessors_new_obj by auto
qed

theorem no_measure_accessors_witness:
  "snd (EFPBase_init sample_Measure [''measure'', ''beta'']
          [(''no_measure'', PBool True), (''beta'', PNum 2)]) = Inr new_obj
   \<and> snd (EFMBase_init sample_Measure [''measure'', ''beta'']
          [(''no_measure'', PBool True), (''beta'', PNum 2)]) = Inr new_obj
   \<and> \<not> has_measure new_obj \<and> measure_prop new_obj = PNone \<and> beta new_obj = PNone
   \<and> kappa new_obj = PNone \<and> normed new_obj = PNone \<and> coords new_obj = PNone
   \<and> check_input new_obj = PNone \<and> subslicing new_obj = PNone"
proof -
  have e: "snd (EFMBase_init sample_Measure [''measure'', ''beta'']
          [(''no_measure'', PBool True), (''beta'', PNum 2)]) = Inr new_obj"
    by (simp add: init_defs)
  have h: "map_of [(''no_measure'', PBool True), (''beta'', PNum 2)] ''no_measure''
      = Some (PBool True)" by simp
  have t: "truthy (PBool True)" by simp
  note w = no_measure_accessors[OF h t, where Measure_new = sample_Measure
      and measure_kwargs = "[''measure'', ''beta'']"]
  from w[THEN conjunct1] w[THEN conjunct2, THEN spec, of new_obj] e
  show ?thesis by simp
qed

text \<open>
  Claim C10. In the constructor of \<^verbatim>\<open>EFMBase\<close> the check of the measure kind comes
  before the \<^verbatim>\<open>no_measure\<close> flag is read. With a truthy \<^verbatim>\<open>no_measure\<close>: a kind
  without \<^verbatim>\<open>efm\<close> still raises the assertion error; a kind with \<^verbatim>\<open>efm\<close> gives an
  instance without a measure; and with no kind given the caller's dictionary comes back
  with \<^verbatim>\<open>measure\<close> set to \<^verbatim>\<open>hadrefm\<close>, although no \<^verbatim>\<open>Measure\<close> is built.
\<close>

theorem efm_check_before_no_measure:
  assumes "map_of kw ''no_measure'' = Some v" and "truthy v"
  shows "(\<forall>k. map_of kw ''measure'' = Some (PStr k) \<and> \<not> sublist ''efm'' k \<longrightarrow>
            EFMBase_init Measure_new measure_kwargs kw =
              (kw, Inl (AssertionError ''Must use an efm measure.'')))
       \<and> (\<forall>k. map_of kw ''measure'' = Some (PStr k) \<and> sublist ''efm'' k \<longrightarrow>
            EFMBase_init Measure_new measure_kwargs kw =
              (AList.delete ''no_measure'' kw, Inr new_obj))
       \<and> (map_of kw ''measure'' = None \<longrightarrow>
            EFMBase_init Measure_new measure_kwargs kw =
              (AList.delete ''no_measure'' (AList.update ''measure'' (PStr ''hadrefm'') kw),
               Inr new_obj))"
proof -
  have a: "EFMBase_init Measure_new measure_kwargs kw =
      (kw, Inl (AssertionError ''Must use an efm measure.''))"
    if "map_of kw ''measure'' = Some (PStr k)" "\<not> sublist ''efm'' k" for k
    using efm_measure_check_given[OF that(1)] that(2)
      EFMBase_init_check_fails[of kw "AssertionError ''Must use an efm measure.''"
        Measure_new measure_kwargs]
    by simp
  have b: "EFMBase_init Measure_new measure_kwargs kw =
      (AList.delete ''no_measure'' kw, Inr new_obj)"
    if "map_of kw ''measure'' = Some (PStr k)" "sublist ''efm'' k" for k
  proof -
    have "efm_measure_check kw = (kw, Inr ())"
      using efm_measure_check_given[OF that(1)] that(2) by simp
    from EFMBase_init_no_measure[OF assms this] show ?thesis .
  qed
  have c: "EFMBase_init Measure_new measure_kwargs kw =
      (AList.delete ''no_measure'' (AList.update ''measure'' (PStr ''hadrefm'') kw), Inr new_obj)"
    if "map_of kw ''measure'' = None"
    using EFMBase_init_no_measure[OF assms efm_measure_check_default[OF that]] .
  show ?thesis using a b c by blast
qed

theorem efm_check_before_no_measure_witness:
  "EFMBase_init sample_Measure [''measure'', ''beta'']
       [(''measure'', PStr ''hadr''), (''no_measure'', PBool True)]
     = ([(''measure'', PStr ''hadr''), (''no_measure'', PBool True)],
        Inl (AssertionError ''Must use an efm measure.''))
   \<and> EFPBase_init sample_Measure [''measure'', ''beta'']
       [(''measure'', PStr ''hadr''), (''no_measure'', PBool True)]
     = ([(''measure'', PStr ''hadr'')], Inr new_obj)
   \<and> EFMBase_init sample_Measure [''measure'', ''beta''] [(''no_measure'', PBool True)]
     = ([(''measure'', PStr ''hadrefm'')], Inr new_obj)"
proof -
  have t: "truthy (PBool True)" by simp
  have h1: "map_of [(''measure'', PStr ''hadr''), (''no_measure'', PBool True)] ''no_measure''
      = Some (PBool True)" by simp
  have h2: "map_of [(''no_measure'', PBool True)] ''no_measure'' = Some (PBool True)" by simp
  note a = efm_check_before_no_measure[OF h1 t, where Measure_new = sample_Measure
      and measure_kwargs = "[''measure'', ''beta'']", THEN conjunct1, THEN spec, of "''hadr''"]
  note c = efm_check_before_no_measure[OF h2 t, where Measure_new = sample_Measure
      and measure_kwargs = "[''measure'', ''beta'']", THEN conjunct2, THEN conjunct2]
  have na: "\<not> sublist ''efm'' ''hadr''" by (simp add: str_contains_sublist[symmetric])
  have p: "EFPBase_init sample_Measure [''measure'', ''beta'']
       [(''measure'', PStr ''hadr''), (''no_measure'', PBool True)]
     = ([(''measure'', PStr ''hadr'')], Inr new_obj)"
    by (simp add: EFPBase_init_def pop_default_def)
  show ?thesis using a c na p by simp
qed

subsection \<open>Claims about the event-or-explicit-data arguments\<close>

text \<open>
  Claim C2. With \<^verbatim>\<open>event\<close> \<^verbatim>\<open>None\<close>, \<^verbatim>\<open>get_zs_thetas_dict\<close> raises exactly when
  \<^verbatim>\<open>zs\<close> or \<^verbatim>\<open>thetas\<close> is \<^verbatim>\<open>None\<close>, and what it raises is the \<^verbatim>\<open>TypeError\<close> of
  line 124; with both given it returns \<^verbatim>\<open>zs\<close> unchanged and a dictionary that maps
  each \<open>w\<close> of the weight set, and nothing else, to \<^verbatim>\<open>thetas\<close> with every entry
  raised to the power \<open>w\<close>. With an event it works from what the measure's
  \<^verbatim>\<open>evaluate\<close> returns for the event, so passing \<open>zs\<close> and \<open>thetas\<close> gives the
  result of passing an event that evaluates to them. \<^verbatim>\<open>EFMBase.compute\<close> follows the
  same contract on \<^verbatim>\<open>zs\<close> and \<^verbatim>\<open>phats\<close>: with an event it returns what
  \<^verbatim>\<open>evaluate\<close> returns (or raises), without one it raises the \<^verbatim>\<open>ValueError\<close> of
  line 172 exactly when \<^verbatim>\<open>zs\<close> or \<^verbatim>\<open>phats\<close> is \<^verbatim>\<open>None\<close> and otherwise returns the
  pair it was given.
\<close>

theorem zs_thetas_contract:
  "(isl (get_zs_thetas_dict evaluate weight_set self None zs thetas) \<longleftrightarrow>
      zs = None \<or> thetas = None)
   \<and> (zs = None \<or> thetas = None \<longrightarrow>
        get_zs_thetas_dict evaluate weight_set self None zs thetas =
          Inl (TypeError ''If event is None then zs and thetas cannot also be None''))
   \<and> (\<forall>z t. zs = Some z \<and> thetas = Some t \<longrightarrow>
        get_zs_thetas_dict evaluate weight_set self None zs thetas =
          Inr (z, thetas_dict weight_set t)
        \<and> (\<forall>w. map_of (thetas_dict weight_set t) w =
              (if w \<in> set weight_set then Some (map (map (\<lambda>x. x ^ w)) t) else None)))
   \<and> (\<forall>ev. get_zs_thetas_dict evaluate weight_set self (Some ev) zs thetas =
        (case measure_evaluate evaluate self ev of
           Inl e \<Rightarrow> Inl e
         | Inr (z, t) \<Rightarrow> Inr (z, thetas_dict weight_set t)))
   \<and> (\<forall>ev z t. measure_evaluate evaluate self ev = Inr (z, t) \<longrightarrow>
        get_zs_thetas_dict evaluate weight_set self (Some ev) zs thetas =
          get_zs_thetas_dict evaluate weight_set self None (Some z) (Some t))
   \<and> (isl (EFMBase_compute evaluate' self None zs' phats) \<longleftrightarrow> zs' = None \<or> phats = None)
   \<and> (zs' = None \<or> phats = None \<longrightarrow>
        EFMBase_compute evaluate' self None zs' phats =
          Inl (ValueError ''If event is None then zs and phats cannot be None.''))
   \<and> (\<forall>z p. zs' = Some z \<and> phats = Some p \<longrightarrow>
        EFMBase_compute evaluate' self None zs' phats = Inr (z, p))
   \<and> (\<forall>ev. EFMBase_compute evaluate' self (Some ev) zs' phats =
        measure_evaluate evaluate' self ev)
   \<and> (\<forall>ev z p. measure_evaluate evaluate' self ev = Inr (z, p) \<longrightarrow>
        EFMBase_compute evaluate' self (Some ev) zs' phats =
          EFMBase_compute evaluate' self None (Some z) (Some p))"
proof -
  have a: "isl (get_zs_thetas_dict evaluate weight_set self None zs thetas) \<longleftrightarrow>
      zs = None \<or> thetas = None"
    by (cases zs; cases thetas) (simp_all add: get_zs_thetas_dict_def)
  have b: "zs = None \<or> thetas = None \<longrightarrow>
        get_zs_thetas_dict evaluate weight_set self None zs thetas =
          Inl (TypeError ''If event is None then zs and thetas cannot also be None'')"
    by (cases zs; cases thetas) (simp_all add: get_zs_thetas_dict_def)
  have c: "\<forall>z t. zs = Some z \<and> thetas = Some t \<longrightarrow>
        get_zs_thetas_dict evaluate weight_set self None zs thetas =
          Inr (z, thetas_dict weight_set t)
        \<and> (\<forall>w. map_of (thetas_dict weight_set t) w =
              (if w \<in> set weight_set then Some (map (map (\<lambda>x. x ^ w)) t) else None))"
    by (simp add: get_zs_thetas_dict_def thetas_dict_lookup)
  have g: "\<forall>ev. get_zs_thetas_dict evaluate weight_set self (Some ev) zs thetas =
        (case measure_evaluate evaluate self ev of
           Inl e \<Rightarrow> Inl e
         | Inr (z, t) \<Rightarrow> Inr (z, thetas_dict weight_set t))"
    by (simp add: get_zs_thetas_dict_def)
  have h: "\<forall>ev z t. measure_evaluate evaluate self ev = Inr (z, t) \<longrightarrow>
        get_zs_thetas_dict evaluate weight_set self (Some ev) zs thetas =
          get_zs_thetas_dict evaluate weight_set self None (Some z) (Some t)"
    by (simp add: get_zs_thetas_dict_def)
  have d: "isl (EFMBase_compute evaluate' self None zs' phats) \<longleftrightarrow> zs' = None \<or> phats = None"
    by (cases zs'; cases phats) (simp_all add: EFMBase_compute_def)
  have e: "zs' = None \<or> phats = None \<longrightarrow>
        EFMBase_compute evaluate' self None zs' phats =
          Inl (ValueError ''If event is None then zs and phats cannot be None.'')"
    by (cases zs'; cases phats) (simp_all add: EFMBase_compute_def)
  have f: "\<forall>z p. zs' = Some z \<and> phats = Some p \<longrightarrow>
        EFMBase_compute evaluate' self None zs' phats = Inr (z, p)"
    by (simp add: EFMBase_compute_def)
  have i: "\<forall>ev. EFMBase_compute evaluate' self (Some ev) zs' phats =
        measure_evaluate evaluate' self ev"
    by (simp add: EFMBase_compute_def)
  have j: "\<forall>ev z p. measure_evaluate evaluate' self ev = Inr (z, p) \<longrightarrow>
        EFMBase_compute evaluate' self (Some ev) zs' phats =
          EFMBase_compute evaluate' self None (Some z) (Some p)"
    by (simp add: EFMBase_compute_def)
  show ?thesis by (intro conjI a b c g h d e f i j)
qed

theorem zs_thetas_contract_witness:
  "get_zs_thetas_dict sample_evaluate [1, 2] sample_obj None
       (Some [1, 3 :: int]) (Some [[0, 2], [2, 0 :: int]])
     = Inr ([1, 3], [(1, [[0, 2], [2, 0]]), (2, [[0, 4], [4, 0]])])
   \<and> get_zs_thetas_dict sample_evaluate [1, 2] sample_obj None (None :: int list option)
       (Some [[0, 2], [2, 0 :: int]])
     = Inl (TypeError ''If event is None then zs and thetas cannot also be None'')
   \<and> get_zs_thetas_dict sample_evaluate [1, 2] sample_obj (Some [3, 1]) None None
     = Inr ([3, 1], [(1, [[0, 2], [- 2, 0]]), (2, [[0, 4], [4, 0]])])
   \<and> EFMBase_compute sample_evaluate sample_obj None (Some [1, 3 :: int])
       (Some [[0, 2], [2, 0 :: int]])
     = Inr ([1, 3], [[0, 2], [2, 0]])
   \<and> EFMBase_compute sample_evaluate sample_obj None (Some [1, 3 :: int]) None
     = Inl (ValueError ''If event is None then zs and phats cannot be None.'')
   \<and> EFMBase_compute sample_evaluate sample_obj (Some [3, 1]) None None
     = Inr ([3, 1], [[0, 2], [- 2, 0]])
   \<and> EFMBase_compute sample_evaluate sample_obj (Some [3, 1]) None None
     = EFMBase_compute sample_evaluate sample_obj None (Some [3, 1]) (Some [[0, 2], [- 2, 0]])"
proof -
  note a = zs_thetas_contract[where evaluate = sample_evaluate and weight_set = "[1, 2]"
      and self = sample_obj and zs = "Some [1, 3 :: int]" and thetas = "Some [[0, 2], [2, 0 :: int]]"
      and evaluate' = sample_evaluate and zs' = "Some [1, 3 :: int]"
      and phats = "Some [[0, 2], [2, 0 :: int]]"]
  note b = zs_thetas_contract[where evaluate = sample_evaluate and weight_set = "[1, 2]"
      and self = sample_obj and zs = "None :: int list option"
      and thetas = "Some [[0, 2], [2, 0 :: int]]"
      and evaluate' = sample_evaluate and zs' = "Some [1, 3 :: int]"
      and phats = "None :: int list list option"]
  note c = zs_thetas_contract[where evaluate = sample_evaluate and weight_set = "[1, 2]"
      and self = sample_obj and zs = "None :: int list option"
      and thetas = "None :: int list list option"
      and evaluate' = sample_evaluate and zs' = "None :: int list option"
      and phats = "None :: int list list option"]
  have ev: "measure_evaluate sample_evaluate sample_obj [3, 1] = Inr ([3, 1], [[0, 2], [- 2, 0]])"
    by (simp add: measure_evaluate_def new_obj_def)
  have d: "thetas_dict [1, 2] [[0, 2], [2, 0 :: int]] =
      [(1, [[0, 2], [2, 0]]), (2, [[0, 4], [4, 0]])]"
    "thetas_dict [1, 2] [[0, 2], [- 2, 0 :: int]] =
      [(1, [[0, 2], [- 2, 0]]), (2, [[0, 4], [4, 0]])]"
    by (simp_all add: thetas_dict_def array_pow_def)
  note a_get = a[THEN conjunct2, THEN conjunct2, THEN conjunct1, rule_format, OF conjI, OF refl refl, THEN conjunct1]
  note a_efm = a[THEN conjunct2, THEN conjunct2, THEN conjunct2, THEN conjunct2, THEN conjunct2, THEN conjunct2, THEN conjunct2, THEN conjunct1, rule_format, OF conjI, OF refl refl]
  note b_get = b[THEN conjunct2, THEN conjunct1, rule_format, OF disjI1, OF refl]
  note b_efm = b[THEN conjunct2, THEN conjunct2, THEN conjunct2, THEN conjunct2, THEN conjunct2, THEN conjunct2, THEN conjunct1, rule_format, OF disjI2, OF refl]
  note c_get = c[THEN conjunct2, THEN conjunct2, THEN conjunct2, THEN conjunct1, rule_format, where ev = "[3, 1]"]
  note c_efm = c[THEN conjunct2, THEN conjunct2, THEN conjunct2, THEN conjunct2, THEN conjunct2, THEN conjunct2, THEN conjunct2, THEN conjunct2, THEN conjunct1, rule_format, where ev = "[3, 1]"]
  note c_syn = c[THEN conjunct2, THEN conjunct2, THEN conjunct2, THEN conjunct2, THEN conjunct2, THEN conjunct2, THEN conjunct2, THEN conjunct2, THEN conjunct2, rule_format, OF ev]
  have 1: "get_zs_thetas_dict sample_evaluate [1, 2] sample_obj None
       (Some [1, 3 :: int]) (Some [[0, 2], [2, 0 :: int]])
     = Inr ([1, 3], [(1, [[0, 2], [2, 0]]), (2, [[0, 4], [4, 0]])])"
    by (simp only: a_get d)
  have 3: "get_zs_thetas_dict sample_evaluate [1, 2] sample_obj (Some [3, 1]) None None
     = Inr ([3, 1], [(1, [[0, 2], [- 2, 0]]), (2, [[0, 4], [4, 0]])])"
    by (simp only: c_get ev sum.case prod.case d)
  have 6: "EFMBase_compute sample_evaluate sample_obj (Some [3, 1]) None None
     = Inr ([3, 1], [[0, 2], [- 2, 0]])"
    by (simp only: c_efm ev)
  show ?thesis by (intro conjI 1 b_get 3 a_efm b_efm 6 c_syn)
qed

text \<open>
  Claim C9, as stated, fails: lines 121 and 129 test \<^verbatim>\<open>event is not None\<close>, not the
  truth value of the event. An empty event is evaluated by the measure, and the
  \<^verbatim>\<open>zs\<close>, \<^verbatim>\<open>thetas\<close> and \<^verbatim>\<open>phats\<close> passed along with it are not used: the result
  differs from the one the same call gives with \<^verbatim>\<open>event\<close> \<^verbatim>\<open>None\<close>.
\<close>

theorem stale_thetas_counterexample:
  "get_zs_thetas_dict sample_evaluate [1] sample_obj (Some []) (Some [5]) (Some [[2]])
     = Inr ([], [(1, [])])
   \<and> get_zs_thetas_dict sample_evaluate [1] sample_obj (Some []) (Some [5]) (Some [[2]])
     \<noteq> get_zs_thetas_dict sample_evaluate [1] sample_obj None (Some [5]) (Some [[2]])
   \<and> compute_efms sample_evaluate (\<lambda>zs phats. Inr (zs, phats)) sample_obj
       (Some []) (Some [5]) (Some [[2]])
     = Inr ([], [])
   \<and> compute_efms sample_evaluate (\<lambda>zs phats. Inr (zs, phats)) sample_obj
       (Some []) (Some [5]) (Some [[2]])
     \<noteq> compute_efms sample_evaluate (\<lambda>zs phats. Inr (zs, phats)) sample_obj
       None (Some [5]) (Some [[2]])"
  by (simp add: get_zs_thetas_dict_def compute_efms_def measure_evaluate_def new_obj_def
      thetas_dict_def array_pow_def)

text \<open>
  Claim C9, amended. Every event that is not \<^verbatim>\<open>None\<close>, an empty one included, is
  evaluated by the measure, and \<^verbatim>\<open>get_zs_thetas_dict\<close> and \<^verbatim>\<open>compute_efms\<close> work
  from what the evaluation returns, whatever \<^verbatim>\<open>zs\<close>, \<^verbatim>\<open>thetas\<close> and \<^verbatim>\<open>phats\<close> were
  passed (the call gives the same result with \<^verbatim>\<open>None\<close> in their place); the passed
  values are used only when \<^verbatim>\<open>event\<close> is \<^verbatim>\<open>None\<close>.
\<close>

theorem event_provided_is_not_none:
  "get_zs_thetas_dict evaluate weight_set self (Some event) zs thetas =
     (case measure_evaluate evaluate self event of
        Inl e \<Rightarrow> Inl e
      | Inr (zs1, thetas1) \<Rightarrow> Inr (zs1, thetas_dict weight_set thetas1))
   \<and> compute_efms evaluate' efmset_compute self (Some event') zs' phats =
     (case measure_evaluate evaluate' self event' of
        Inl e \<Rightarrow> Inl e
      | Inr (zs1, phats1) \<Rightarrow> efmset_compute zs1 phats1)
   \<and> get_zs_thetas_dict evaluate weight_set self None (Some z) (Some t) =
       Inr (z, thetas_dict weight_set t)
   \<and> compute_efms evaluate' efmset_compute self None (Some z') (Some p) = efmset_compute z' p
   \<and> get_zs_thetas_dict evaluate weight_set self (Some event) zs thetas =
       get_zs_thetas_dict evaluate weight_set self (Some event) None None
   \<and> compute_efms evaluate' efmset_compute self (Some event') zs' phats =
       compute_efms evaluate' efmset_compute self (Some event') None None"
proof -
  have used: "get_zs_thetas_dict evaluate weight_set self None (Some z) (Some t) =
       Inr (z, thetas_dict weight_set t)"
    "compute_efms evaluate' efmset_compute self None (Some z') (Some p) = efmset_compute z' p"
    by (simp_all add: get_zs_thetas_dict_def compute_efms_def)
  have evaluated: "get_zs_thetas_dict evaluate weight_set self (Some event) a b =
     (case measure_evaluate evaluate self event of
        Inl e \<Rightarrow> Inl e
      | Inr (zs1, thetas1) \<Rightarrow> Inr (zs1, thetas_dict weight_set thetas1))"
    "compute_efms evaluate' efmset_compute self (Some event') c d =
     (case measure_evaluate evaluate' self event' of
        Inl e \<Rightarrow> Inl e
      | Inr (zs1, phats1) \<Rightarrow> efmset_compute zs1 phats1)" for a b c d
    by (simp_all add: get_zs_thetas_dict_def compute_efms_def)
  show ?thesis by (simp only: used evaluated)
qed

theorem event_provided_is_not_none_witness:
  "get_zs_thetas_dict sample_evaluate [1] sample_obj (Some []) (Some [5]) (Some [[2]])
     = Inr ([], [(1, [])])
   \<and> get_zs_thetas_dict sample_evaluate [1] sample_obj (Some [3, 1]) (Some [5]) (Some [[2]])
     = Inr ([3, 1], [(1, [[0, 2], [- 2, 0]])])
   \<and> get_zs_thetas_dict sample_evaluate [1] sample_obj None (Some [5]) (Some [[2]])
     = Inr ([5], [(1, [[2]])])"
  using event_provided_is_not_none[where evaluate = sample_evaluate and weight_set = "[1]"
      and self = sample_obj and event = "[]" and zs = "Some [5]" and thetas = "Some [[2]]"
      and evaluate' = sample_evaluate and efmset_compute = "\<lambda>zs phats. Inr (zs, phats)"
      and event' = "[]" and zs' = "Some [5]" and phats = "Some [[2]]"
      and z = "[5]" and t = "[[2]]" and z' = "[5]" and p = "[[2]]"]
    event_provided_is_not_none[where evaluate = sample_evaluate and weight_set = "[1]"
      and self = sample_obj and event = "[3, 1]" and zs = "Some [5]" and thetas = "Some [[2]]"
      and evaluate' = sample_evaluate and efmset_compute = "\<lambda>zs phats. Inr (zs, phats)"
      and event' = "[]" and zs' = "Some [5]" and phats = "Some [[2]]"
      and z = "[5]" and t = "[[2]]" and z' = "[5]" and p = "[[2]]"]
  by (simp add: measure_evaluate_def new_obj_def thetas_dict_def array_pow_def)

end
